theory Spec2Isabelle
  imports Main
begin

section \<open>hyperglass: command construction (\<^verbatim>\<open>hyperglass/command/construct.py\<close>)\<close>

text \<open>
  The module holds two builders, \<^verbatim>\<open>frr\<close> (API queries) and \<^verbatim>\<open>ssh\<close> (direct commands).
  Both take a query type \<^verbatim>\<open>cmd\<close>, a target \<^verbatim>\<open>ipprefix\<close> and a device, validate the target
  and return a tuple, writing log lines on the way.

  Python strings are modelled as \<^typ>\<open>string\<close>; the code inspects only ASCII digits, the
  colon and the line feed. Exceptions are values of \<open>py_error\<close>; a call returns
  \<open>Inl e\<close> when it raises \<open>e\<close> and \<open>Inr v\<close> when it returns \<open>v\<close>. The logger is the only
  thing written to: the log is passed in and returned.
\<close>

subsection \<open>Exceptions, status codes, devices, the log\<close>

datatype py_error = UnboundLocalError | TypeError | KeyError | AddrFormatError | ValueError

text \<open>\<^verbatim>\<open>class codes\<close> and its instance \<^verbatim>\<open>code = codes()\<close>.\<close>

record codes =
  success :: int
  warning :: int
  danger :: int

definition code :: codes where
  "code = \<lparr>success = 200, warning = 405, danger = 415\<rparr>"

text \<open>
  A device is the dictionary the builders read seven keys from; the fields carry the names
  of the locals the values are bound to (\<^verbatim>\<open>d_address = device["address"]\<close>, ...).
\<close>

record device =
  d_address :: string
  d_src_addr_ipv4 :: string
  d_src_addr_ipv6 :: string
  d_location :: string
  d_name :: string
  d_port :: int
  d_type :: string

datatype level = Info | Error

type_synonym log = "(level \<times> string) list"

definition logger_info :: "string \<Rightarrow> log \<Rightarrow> log" where
  "logger_info line lg = lg @ [(Info, line)]"

definition logger_error :: "string \<Rightarrow> log \<Rightarrow> log" where
  "logger_error line lg = lg @ [(Error, line)]"

text \<open>\<^verbatim>\<open>str(n)\<close> for a status code inside an f-string.\<close>

definition digit_char :: "nat \<Rightarrow> char" where
  "digit_char d = ''0123456789'' ! (d mod 10)"

fun str_nat :: "nat \<Rightarrow> string" where
  "str_nat n = (if n < 10 then [digit_char n] else str_nat (n div 10) @ [digit_char (n mod 10)])"

declare str_nat.simps [simp del]

definition str_int :: "int \<Rightarrow> string" where
  "str_int i = (if i < 0 then CHR ''-'' # str_nat (nat (- i)) else str_nat (nat i))"

text \<open>
  Reading a local variable: a name that no statement has bound yet raises
  \<^verbatim>\<open>UnboundLocalError\<close>.
\<close>

definition read_local :: "'a option \<Rightarrow> py_error + 'a" where
  "read_local v = (case v of None \<Rightarrow> Inl UnboundLocalError | Some x \<Rightarrow> Inr x)"

subsection \<open>\<^verbatim>\<open>json.dumps\<close> on a dictionary of strings\<close>

text \<open>
  \<^verbatim>\<open>json.dumps\<close> with its defaults: keys in insertion order, separators \<^verbatim>\<open>", "\<close> and
  \<^verbatim>\<open>": "\<close>, and every character outside \<^verbatim>\<open>' '..'~'\<close>, the quote and the backslash escaped.
\<close>

definition hex_char :: "nat \<Rightarrow> char" where
  "hex_char d = ''0123456789abcdef'' ! (d mod 16)"

definition json_escape :: "char \<Rightarrow> string" where
  "json_escape c =
     (if c = CHR 0x22 then [CHR 0x5C, CHR 0x22]
      else if c = CHR 0x5C then [CHR 0x5C, CHR 0x5C]
      else if c = CHR 0x0A then [CHR 0x5C, CHR ''n'']
      else if c = CHR 0x0D then [CHR 0x5C, CHR ''r'']
      else if c = CHR 0x09 then [CHR 0x5C, CHR ''t'']
      else if c = CHR 0x08 then [CHR 0x5C, CHR ''b'']
      else if c = CHR 0x0C then [CHR 0x5C, CHR ''f'']
      else if 0x20 \<le> (of_char c :: nat) \<and> (of_char c :: nat) \<le> 0x7E then [c]
      else [CHR 0x5C, CHR ''u'', CHR ''0'', CHR ''0'',
            hex_char ((of_char c :: nat) div 16), hex_char ((of_char c :: nat) mod 16)])"

definition json_string :: "string \<Rightarrow> string" where
  "json_string s = [CHR 0x22] @ concat (map json_escape s) @ [CHR 0x22]"

fun json_items :: "(string \<times> string) list \<Rightarrow> string" where
  "json_items [] = []"
| "json_items [(k, v)] = json_string k @ '': '' @ json_string v"
| "json_items ((k, v) # kvs) = json_string k @ '': '' @ json_string v @ '', '' @ json_items kvs"

definition json_dumps :: "(string \<times> string) list \<Rightarrow> string" where
  "json_dumps kvs = ''{'' @ json_items kvs @ ''}''"

subsection \<open>The regular expressions\<close>

text \<open>
  \<^verbatim>\<open>re.match\<close> anchors at the start of the string. Each piece of a pattern consumes a prefix
  and returns the rest, or \<open>None\<close> when it does not match there. In all three community
  patterns a digit group is followed by a colon or by \<^verbatim>\<open>$\<close>, neither of which matches at a
  digit, so the group matches exactly when the whole run of digits at that position has a
  length within the bounds. \<^verbatim>\<open>$\<close> (no \<^verbatim>\<open>re.MULTILINE\<close>) matches at the end of the string and
  also just before a line feed that is the last character. \<^verbatim>\<open>.\<close> is any character but the
  line feed.
\<close>

definition is_digit :: "char \<Rightarrow> bool" where
  "is_digit c = (c \<in> set ''0123456789'')"

definition rx_digits :: "nat \<Rightarrow> nat \<Rightarrow> string \<Rightarrow> string option" where
  "rx_digits lo hi s =
     (let n = length (takeWhile is_digit s)
      in if lo \<le> n \<and> n \<le> hi then Some (dropWhile is_digit s) else None)"

definition rx_colon :: "string \<Rightarrow> string option" where
  "rx_colon s = (case s of [] \<Rightarrow> None | c # r \<Rightarrow> if c = CHR '':'' then Some r else None)"

definition rx_end :: "string \<Rightarrow> string option" where
  "rx_end s = (if s = [] \<or> s = [CHR 0x0A] then Some s else None)"

definition rx_dot_star :: "string \<Rightarrow> string option" where
  "rx_dot_star s = Some (dropWhile (\<lambda>c. c \<noteq> CHR 0x0A) s)"

text \<open>\<^verbatim>\<open>re.match("^([0-9]{0,5})\:([0-9]{1,5})$", s)\<close>\<close>

definition match_new_format :: "string \<Rightarrow> bool" where
  "match_new_format s =
     (Option.bind (Option.bind (Option.bind (rx_digits 0 5 s) rx_colon) (rx_digits 1 5)) rx_end
        \<noteq> None)"

text \<open>\<^verbatim>\<open>re.match("^[0-9]{1,10}$", s)\<close>\<close>

definition match_32bit :: "string \<Rightarrow> bool" where
  "match_32bit s = (Option.bind (rx_digits 1 10 s) rx_end \<noteq> None)"

text \<open>\<^verbatim>\<open>re.match("^([0-9]{1,10})\:([0-9]{1,10})\:[0-9]{1,10}$", s)\<close>\<close>

definition match_large :: "string \<Rightarrow> bool" where
  "match_large s =
     (Option.bind (Option.bind (Option.bind (Option.bind (Option.bind
        (rx_digits 1 10 s) rx_colon) (rx_digits 1 10)) rx_colon) (rx_digits 1 10)) rx_end
        \<noteq> None)"

text \<open>\<^verbatim>\<open>re.match(".*", s)\<close>\<close>

definition match_any :: "string \<Rightarrow> bool" where
  "match_any s = (rx_dot_star s \<noteq> None)"

subsection \<open>What the module takes from outside\<close>

text \<open>
  \<^verbatim>\<open>IPNetwork(ipprefix).ip.version\<close> comes from the \<^verbatim>\<open>netaddr\<close> library: it is 4 or 6, or
  the constructor raises. The builders take it as a parameter
  \<open>IPNetwork :: string \<Rightarrow> ip_version option\<close>, \<open>None\<close> standing for the exception.

  \<^verbatim>\<open>str.format\<close> is a parameter too: \<open>format mc kwargs\<close> renders the template \<open>mc\<close> with
  the keyword arguments \<open>kwargs\<close>, or raises.

  \<^verbatim>\<open>commands = configuration.commands()\<close> is the command template store: for a vendor type,
  \<^verbatim>\<open>commands[type][0]\<close> holds the three groups \<^verbatim>\<open>dual\<close>, \<^verbatim>\<open>ipv4\<close> and \<^verbatim>\<open>ipv6\<close>, each a
  dictionary from query type to template.
\<close>

datatype ip_version = IPv4 | IPv6

record command =
  dual :: "string \<rightharpoonup> string"
  ipv4 :: "string \<rightharpoonup> string"
  ipv6 :: "string \<rightharpoonup> string"

type_synonym commands = "string \<rightharpoonup> command"

type_synonym formatter = "string \<Rightarrow> (string \<times> string) list \<Rightarrow> py_error + string"

text \<open>A dictionary subscript \<^verbatim>\<open>d[k]\<close>.\<close>

definition subscript :: "(string \<rightharpoonup> 'v) \<Rightarrow> string \<Rightarrow> py_error + 'v" where
  "subscript d k = (case d k of None \<Rightarrow> Inl KeyError | Some v \<Rightarrow> Inr v)"

text \<open>\<^verbatim>\<open>mc = grp[cmd]; command = mc.format(**kwargs)\<close>, for a group \<open>grp\<close> of \<^verbatim>\<open>c\<close>\<close>

definition render :: "formatter \<Rightarrow> (string \<rightharpoonup> string) \<Rightarrow> string \<Rightarrow> (string \<times> string) list
    \<Rightarrow> py_error + string" where
  "render format grp cmd kwargs =
     (case subscript grp cmd of Inl e \<Rightarrow> Inl e | Inr mc \<Rightarrow> format mc kwargs)"

subsection \<open>\<^verbatim>\<open>frr\<close>: the API query builder\<close>

type_synonym frr_result = "string \<times> int \<times> string \<times> string"

definition frr :: "(string \<Rightarrow> ip_version option) \<Rightarrow> string \<Rightarrow> string \<Rightarrow> device \<Rightarrow> log
    \<Rightarrow> (py_error + frr_result) \<times> log" where
  "frr IPNetwork cmd ipprefix device lg0 =
    (let lg = logger_info (''Constructing '' @ cmd @ '' command for FRR router '' @ d_name device
                 @ '' to '' @ ipprefix @ ''...'') lg0
     in
     if cmd \<in> set [''bgp_community''] then
       (let query = json_dumps [(''cmd'', cmd), (''afi'', ''dual''), (''target'', ipprefix)]
        in
        if match_new_format ipprefix then
          (Inr (ipprefix @ '' matched new-format community.'', success code, d_address device, query), lg)
        else if match_32bit ipprefix then
          (Inr (ipprefix @ '' matched 32 bit community.'', success code, d_address device, query), lg)
        else if match_large ipprefix then
          (Inr (ipprefix @ '' matched large community.'', success code, d_address device, query), lg)
        else
          (let msg = ipprefix @ '' is an invalid BGP Community Format.''
           in (Inr (msg, danger code, d_address device, query),
               logger_error (msg @ '', '' @ str_int (danger code) @ '', '' @ d_name device
                  @ '', '' @ query) lg)))
     else if cmd \<in> set [''bgp_aspath''] then
       (if match_any ipprefix then
          (let query = json_dumps [(''cmd'', cmd), (''afi'', ''dual''), (''target'', ipprefix)]
           in (Inr (ipprefix @ '' matched AS_PATH regex.'', success code, d_address device, query), lg))
        else
          (let msg = ipprefix @ '' is an invalid AS_PATH regex.'';
               lg' = logger_error (msg @ '', '' @ str_int (danger code) @ '', '' @ d_name device
                  @ '', '' @ cmd @ '', '' @ ipprefix) lg
           in case read_local None of
                Inl e \<Rightarrow> (Inl e, lg')
              | Inr query \<Rightarrow> (Inr (msg, danger code, d_address device, query), lg')))
     else if cmd \<in> set [''bgp_route''] then
       (case IPNetwork ipprefix of
          Some IPv4 \<Rightarrow>
            (let query = json_dumps [(''cmd'', cmd), (''afi'', ''ipv4''), (''target'', ipprefix)]
             in (Inr (ipprefix @ '' is a valid IPv4 Adddress.'', success code, d_address device, query), lg))
        | Some IPv6 \<Rightarrow>
            (let query = json_dumps [(''cmd'', cmd), (''afi'', ''ipv6''), (''target'', ipprefix)]
             in (Inr (ipprefix @ '' is a valid IPv6 Adddress.'', success code, d_address device, query), lg))
        | None \<Rightarrow>
            (let msg = ipprefix @ '' is an invalid IP Address.''
             in case read_local None of
                  Inl e \<Rightarrow> (Inl e, lg)
                | Inr query \<Rightarrow>
                    (Inr (msg, danger code, d_address device, query),
                     logger_error (msg @ '', '' @ str_int (danger code) @ '', '' @ d_name device
                        @ '', '' @ query) lg)))
     else if cmd \<in> set [''ping'', ''traceroute''] then
       (case IPNetwork ipprefix of
          Some IPv4 \<Rightarrow>
            (let query = json_dumps [(''cmd'', cmd), (''afi'', ''ipv4''),
                            (''source'', d_src_addr_ipv4 device), (''target'', ipprefix)]
             in (Inr (ipprefix @ '' is a valid IPv4 Adddress.'', success code, d_address device, query), lg))
        | Some IPv6 \<Rightarrow>
            (let query = json_dumps [(''cmd'', cmd), (''afi'', ''ipv6''),
                            (''source'', d_src_addr_ipv6 device), (''target'', ipprefix)]
             in (Inr (ipprefix @ '' is a valid IPv6 Adddress.'', success code, d_address device, query), lg))
        | None \<Rightarrow>
            (let msg = ipprefix @ '' is an invalid IP Address.''
             in case read_local None of
                  Inl e \<Rightarrow> (Inl e, lg)
                | Inr query \<Rightarrow>
                    (Inr (msg, danger code, d_name device, query),
                     logger_error (msg @ '', '' @ str_int (danger code) @ '', '' @ d_name device
                        @ '', '' @ query) lg)))
     else
       (let msg = ''Command '' @ cmd @ '' not found.''
        in case read_local None of
             Inl e \<Rightarrow> (Inl e, lg)
           | Inr query \<Rightarrow>
               (Inr (msg, danger code, d_name device, query),
                logger_error (msg @ '', '' @ str_int (danger code) @ '', '' @ d_name device
                   @ '', '' @ query) lg)))"

subsection \<open>\<^verbatim>\<open>ssh\<close>: the direct command builder\<close>

text \<open>
  \<^verbatim>\<open>c = command(d_type)\<close>: the constructor of the local class \<^verbatim>\<open>command\<close>. For a vendor
  type outside the store, \<^verbatim>\<open>__init__\<close> logs and then returns a tuple; Python raises
  \<^verbatim>\<open>TypeError\<close> for an \<^verbatim>\<open>__init__\<close> that returns anything but \<^verbatim>\<open>None\<close>.
\<close>

definition command_init :: "commands \<Rightarrow> string \<Rightarrow> string \<Rightarrow> device \<Rightarrow> string \<Rightarrow> log
    \<Rightarrow> (py_error + command) \<times> log" where
  "command_init commands cmd ipprefix device type lg =
     (case commands type of
        Some groups \<Rightarrow>
          (Inr \<lparr>dual = dual groups, ipv4 = ipv4 groups, ipv6 = ipv6 groups\<rparr>, lg)
      | None \<Rightarrow>
          (let msg = d_type device @ '' is an unsupported network operating system.''
           in (Inl TypeError,
               logger_error (msg @ '', '' @ str_int (danger code) @ '', '' @ d_name device
                  @ '', '' @ cmd @ '', '' @ ipprefix) lg)))"

type_synonym ssh_result = "string \<times> int \<times> string \<times> string \<times> string"

text \<open>The failure tuple and its log line, the same in every failure branch of \<^verbatim>\<open>ssh\<close>.\<close>

definition ssh_danger :: "string \<Rightarrow> string \<Rightarrow> string \<Rightarrow> device \<Rightarrow> log
    \<Rightarrow> (py_error + ssh_result) \<times> log" where
  "ssh_danger msg cmd ipprefix device lg =
     (Inr (msg, danger code, d_name device, cmd, ipprefix),
      logger_error (msg @ '', '' @ str_int (danger code) @ '', '' @ d_name device
         @ '', '' @ cmd @ '', '' @ ipprefix) lg)"

definition ssh :: "(string \<Rightarrow> ip_version option) \<Rightarrow> formatter \<Rightarrow> commands \<Rightarrow> string \<Rightarrow> string
    \<Rightarrow> device \<Rightarrow> log \<Rightarrow> (py_error + ssh_result) \<times> log" where
  "ssh IPNetwork format commands cmd ipprefix device lg0 =
    (let lg1 = logger_info (''Constructing '' @ cmd @ '' command for '' @ d_name device
                 @ '' to '' @ ipprefix @ ''...'') lg0
     in
     case command_init commands cmd ipprefix device (d_type device) lg1 of
       (Inl e, lg) \<Rightarrow> (Inl e, lg)
     | (Inr c, lg) \<Rightarrow>
     if cmd = ''bgp_community'' then
       (if match_new_format ipprefix then
          (case render format (dual c) cmd [(''target'', ipprefix)] of
             Inl e \<Rightarrow> (Inl e, lg)
           | Inr command \<Rightarrow>
               (Inr (ipprefix @ '' matched new-format community.'', success code,
                     d_address device, d_type device, command), lg))
        else if match_32bit ipprefix then
          (case render format (dual c) cmd [(''target'', ipprefix)] of
             Inl e \<Rightarrow> (Inl e, lg)
           | Inr command \<Rightarrow>
               (Inr (ipprefix @ '' matched 32 bit community.'', success code,
                     d_address device, d_type device, command), lg))
        else if match_large ipprefix then
          (case render format (dual c) cmd [(''target'', ipprefix)] of
             Inl e \<Rightarrow> (Inl e, lg)
           | Inr command \<Rightarrow>
               (Inr (ipprefix @ '' matched large community.'', success code,
                     d_address device, d_type device, command), lg))
        else
          ssh_danger (ipprefix @ '' is an invalid BGP Community Format.'') cmd ipprefix device lg)
     else if cmd = ''bgp_aspath'' then
       (if match_any ipprefix then
          (case render format (dual c) cmd [(''target'', ipprefix)] of
             Inl e \<Rightarrow> (Inl e, lg)
           | Inr command \<Rightarrow>
               (Inr (ipprefix @ '' matched AS_PATH regex.'', success code,
                     d_address device, d_type device, command), lg))
        else
          ssh_danger (ipprefix @ '' is an invalid AS_PATH regex.'') cmd ipprefix device lg)
     else if cmd = ''bgp_route'' then
       (case (case IPNetwork ipprefix of
                None \<Rightarrow> Inl AddrFormatError
              | Some IPv4 \<Rightarrow>
                  (case render format (ipv4 c) cmd [(''target'', ipprefix)] of
                     Inl e \<Rightarrow> Inl e
                   | Inr command \<Rightarrow>
                       Inr (ipprefix @ '' is a valid IPv4 Adddress.'', success code,
                            d_address device, d_type device, command))
              | Some IPv6 \<Rightarrow>
                  (case render format (ipv6 c) cmd [(''target'', ipprefix)] of
                     Inl e \<Rightarrow> Inl e
                   | Inr command \<Rightarrow>
                       Inr (ipprefix @ '' is a valid IPv6 Adddress.'', success code,
                            d_address device, d_type device, command))) of
          Inr r \<Rightarrow> (Inr r, lg)
        | Inl e \<Rightarrow> ssh_danger (ipprefix @ '' is an invalid IP Address.'') cmd ipprefix device lg)
     else if cmd \<in> set [''ping'', ''traceroute''] then
       (case (case IPNetwork ipprefix of
                None \<Rightarrow> Inl AddrFormatError
              | Some IPv4 \<Rightarrow>
                  (case render format (ipv4 c) cmd
                          [(''target'', ipprefix), (''src_addr_ipv4'', d_src_addr_ipv4 device)] of
                     Inl e \<Rightarrow> Inl e
                   | Inr command \<Rightarrow>
                       Inr (ipprefix @ '' is a valid IPv4 Adddress.'', success code,
                            d_address device, d_type device, command))
              | Some IPv6 \<Rightarrow>
                  (case render format (ipv6 c) cmd
                          [(''target'', ipprefix), (''src_addr_ipv6'', d_src_addr_ipv6 device)] of
                     Inl e \<Rightarrow> Inl e
                   | Inr command \<Rightarrow>
                       Inr (ipprefix @ '' is a valid IPv6 Adddress.'', success code,
                            d_address device, d_type device, command))) of
          Inr r \<Rightarrow> (Inr r, lg)
        | Inl e \<Rightarrow> ssh_danger (ipprefix @ '' is an invalid IP Address.'') cmd ipprefix device lg)
     else
       ssh_danger (''Command '' @ cmd @ '' not found.'') cmd ipprefix device lg)"

subsection \<open>The community syntaxes in the words of the specification\<close>

text \<open>
  A group of \<open>lo\<close> to \<open>hi\<close> digits; the groups of a string between its colons; and the
  three syntaxes: \<^verbatim>\<open>ASN:NN\<close> with 0 to 5 and 1 to 5 digits, 1 to 10 digits without a colon,
  and three colon-separated groups of 1 to 10 digits.
\<close>

definition digit_group :: "nat \<Rightarrow> nat \<Rightarrow> string \<Rightarrow> bool" where
  "digit_group lo hi g = (list_all is_digit g \<and> lo \<le> length g \<and> length g \<le> hi)"

fun split_colon :: "string \<Rightarrow> string \<Rightarrow> string list" where
  "split_colon g [] = [g]"
| "split_colon g (c # s) =
     (if c = CHR '':'' then g # split_colon [] s else split_colon (g @ [c]) s)"

definition new_format_syntax :: "string \<Rightarrow> bool" where
  "new_format_syntax t =
     (case split_colon [] t of
        [asn, nn] \<Rightarrow> digit_group 0 5 asn \<and> digit_group 1 5 nn
      | _ \<Rightarrow> False)"

definition plain_32bit_syntax :: "string \<Rightarrow> bool" where
  "plain_32bit_syntax t = digit_group 1 10 t"

definition large_syntax :: "string \<Rightarrow> bool" where
  "large_syntax t =
     (case split_colon [] t of
        [ga, la, lb] \<Rightarrow> digit_group 1 10 ga \<and> digit_group 1 10 la \<and> digit_group 1 10 lb
      | _ \<Rightarrow> False)"

definition community_syntax :: "string \<Rightarrow> bool" where
  "community_syntax t = (new_format_syntax t \<or> plain_32bit_syntax t \<or> large_syntax t)"

text \<open>A string without the one line feed that may end it.\<close>

definition chomp :: "string \<Rightarrow> string" where
  "chomp s = (if s \<noteq> [] \<and> last s = CHR 0x0A then butlast s else s)"

subsection \<open>The tuples of \<^verbatim>\<open>ssh\<close>\<close>

text \<open>
  What a returned tuple of \<^verbatim>\<open>ssh\<close> looks like: a success tuple carries the device's address,
  its vendor type and a command rendered from a template of the vendor's groups; a failure
  tuple carries the device's name, the query type and the target.
\<close>

definition rendered :: "formatter \<Rightarrow> commands \<Rightarrow> device \<Rightarrow> string \<Rightarrow> string \<Rightarrow> bool" where
  "rendered format commands dev cmd k =
     (\<exists>c grp kwargs. commands (d_type dev) = Some c \<and> grp \<in> {dual c, ipv4 c, ipv6 c} \<and>
        render format grp cmd kwargs = Inr k)"

subsection \<open>Concrete inputs for the examples\<close>

text \<open>
  A device, the answers of \<^verbatim>\<open>netaddr\<close> on the targets the examples use (the four addresses
  and prefixes parse, \<^verbatim>\<open>not-an-ip\<close> raises), a formatter for templates made of literal text
  and plain fields \<^verbatim>\<open>{name}\<close>, and a template store with one vendor type.
\<close>

definition example_device :: device where
  "example_device =
     \<lparr>d_address = ''10.0.0.1'', d_src_addr_ipv4 = ''192.0.2.254'',
      d_src_addr_ipv6 = ''2001:db8::ff'', d_location = ''pop1'', d_name = ''r1'',
      d_port = 22, d_type = ''cisco_ios''\<rparr>"

definition example_IPNetwork :: "string \<Rightarrow> ip_version option" where
  "example_IPNetwork s =
     (if s \<in> set [''192.0.2.1'', ''192.0.2.0/24''] then Some IPv4
      else if s \<in> set [''2001:db8::1'', ''2001:db8::/32''] then Some IPv6
      else None)"

fun fill :: "(string \<times> string) list \<Rightarrow> string option \<Rightarrow> string \<Rightarrow> py_error + string" where
  "fill kwargs None [] = Inr []"
| "fill kwargs (Some field) [] = Inl ValueError"
| "fill kwargs None (c # s) =
     (if c = CHR ''{'' then fill kwargs (Some []) s
      else if c = CHR ''}'' then Inl ValueError
      else (case fill kwargs None s of Inl e \<Rightarrow> Inl e | Inr out \<Rightarrow> Inr (c # out)))"
| "fill kwargs (Some field) (c # s) =
     (if c = CHR ''}'' then
        (case map_of kwargs field of
           None \<Rightarrow> Inl KeyError
         | Some v \<Rightarrow> (case fill kwargs None s of Inl e \<Rightarrow> Inl e | Inr out \<Rightarrow> Inr (v @ out)))
      else fill kwargs (Some (field @ [c])) s)"

definition example_format :: formatter where
  "example_format mc kwargs = fill kwargs None mc"

definition example_groups :: command where
  "example_groups =
     \<lparr>dual = [''bgp_community'' \<mapsto> ''show bgp all community {target}'',
              ''bgp_aspath'' \<mapsto> ''show bgp all regexp {target}''],
      ipv4 = [''bgp_route'' \<mapsto> ''show bgp ipv4 unicast {target}'',
              ''ping'' \<mapsto> ''ping {target} source {src_addr_ipv4}'',
              ''traceroute'' \<mapsto> ''traceroute {target} source {src_addr_ipv4}''],
      ipv6 = [''bgp_route'' \<mapsto> ''show bgp ipv6 unicast {target}'',
              ''ping'' \<mapsto> ''ping ipv6 {target} source {src_addr_ipv6}'',
              ''traceroute'' \<mapsto> ''traceroute ipv6 {target} source {src_addr_ipv6}'']\<rparr>"

definition example_commands :: commands where
  "example_commands = [''cisco_ios'' \<mapsto> example_groups]"

text \<open>The same store with the \<^verbatim>\<open>bgp_route\<close> templates left out.\<close>

definition example_groups_no_route :: command where
  "example_groups_no_route =
     \<lparr>dual = [''bgp_community'' \<mapsto> ''show bgp all community {target}''],
      ipv4 = [''ping'' \<mapsto> ''ping {target} source {src_addr_ipv4}''],
      ipv6 = [''ping'' \<mapsto> ''ping ipv6 {target} source {src_addr_ipv6}'']\<rparr>"

definition example_commands_no_route :: commands where
  "example_commands_no_route = [''cisco_ios'' \<mapsto> example_groups_no_route]"

section \<open>The branches of the two builders\<close>

lemma match_any_always: "match_any s"
  by (simp add: match_any_def rx_dot_star_def)

lemma cmd_cases [case_names community aspath route ping_traceroute other]:
  obtains "cmd = ''bgp_community''" | "cmd = ''bgp_aspath''" | "cmd = ''bgp_route''"
  | "cmd = ''ping'' \<or> cmd = ''traceroute''"
  | "cmd \<noteq> ''bgp_community''" "cmd \<noteq> ''bgp_aspath''" "cmd \<noteq> ''bgp_route''"
    "cmd \<noteq> ''ping''" "cmd \<noteq> ''traceroute''"
  by blast

subsection \<open>\<^verbatim>\<open>frr\<close>\<close>

lemma frr_community:
  "fst (frr IPNetwork ''bgp_community'' t dev lg) =
     (let query = json_dumps [(''cmd'', ''bgp_community''), (''afi'', ''dual''), (''target'', t)]
      in if match_new_format t then
           Inr (t @ '' matched new-format community.'', success code, d_address dev, query)
         else if match_32bit t then
           Inr (t @ '' matched 32 bit community.'', success code, d_address dev, query)
         else if match_large t then
           Inr (t @ '' matched large community.'', success code, d_address dev, query)
         else Inr (t @ '' is an invalid BGP Community Format.'', danger code, d_address dev, query))"
  by (simp add: frr_def Let_def)

lemma frr_aspath:
  "fst (frr IPNetwork ''bgp_aspath'' t dev lg) =
     Inr (t @ '' matched AS_PATH regex.'', success code, d_address dev,
          json_dumps [(''cmd'', ''bgp_aspath''), (''afi'', ''dual''), (''target'', t)])"
  by (simp add: frr_def Let_def match_any_always)

lemma frr_route:
  "fst (frr IPNetwork ''bgp_route'' t dev lg) =
     (case IPNetwork t of
        Some IPv4 \<Rightarrow>
          Inr (t @ '' is a valid IPv4 Adddress.'', success code, d_address dev,
               json_dumps [(''cmd'', ''bgp_route''), (''afi'', ''ipv4''), (''target'', t)])
      | Some IPv6 \<Rightarrow>
          Inr (t @ '' is a valid IPv6 Adddress.'', success code, d_address dev,
               json_dumps [(''cmd'', ''bgp_route''), (''afi'', ''ipv6''), (''target'', t)])
      | None \<Rightarrow> Inl UnboundLocalError)"
  by (simp add: frr_def Let_def read_local_def split: option.split ip_version.split)

lemma frr_ping_traceroute:
  "cmd = ''ping'' \<or> cmd = ''traceroute'' \<Longrightarrow>
   fst (frr IPNetwork cmd t dev lg) =
     (case IPNetwork t of
        Some IPv4 \<Rightarrow>
          Inr (t @ '' is a valid IPv4 Adddress.'', success code, d_address dev,
               json_dumps [(''cmd'', cmd), (''afi'', ''ipv4''),
                           (''source'', d_src_addr_ipv4 dev), (''target'', t)])
      | Some IPv6 \<Rightarrow>
          Inr (t @ '' is a valid IPv6 Adddress.'', success code, d_address dev,
               json_dumps [(''cmd'', cmd), (''afi'', ''ipv6''),
                           (''source'', d_src_addr_ipv6 dev), (''target'', t)])
      | None \<Rightarrow> Inl UnboundLocalError)"
  by (erule disjE; simp add: frr_def Let_def read_local_def split: option.split ip_version.split)

lemma frr_other:
  "cmd \<noteq> ''bgp_community'' \<Longrightarrow> cmd \<noteq> ''bgp_aspath'' \<Longrightarrow> cmd \<noteq> ''bgp_route'' \<Longrightarrow>
   cmd \<noteq> ''ping'' \<Longrightarrow> cmd \<noteq> ''traceroute'' \<Longrightarrow>
   fst (frr IPNetwork cmd t dev lg) = Inl UnboundLocalError"
  by (simp add: frr_def Let_def read_local_def)

subsection \<open>\<^verbatim>\<open>ssh\<close>\<close>

lemma ssh_unsupported:
  "commands (d_type dev) = None \<Longrightarrow>
   fst (ssh IPNetwork format commands cmd t dev lg) = Inl TypeError"
  by (simp add: ssh_def Let_def command_init_def)

lemma ssh_community:
  "commands (d_type dev) = Some c \<Longrightarrow>
   fst (ssh IPNetwork format commands ''bgp_community'' t dev lg) =
     (if match_new_format t then
        (case render format (dual c) ''bgp_community'' [(''target'', t)] of
           Inl e \<Rightarrow> Inl e
         | Inr k \<Rightarrow> Inr (t @ '' matched new-format community.'', success code,
                          d_address dev, d_type dev, k))
      else if match_32bit t then
        (case render format (dual c) ''bgp_community'' [(''target'', t)] of
           Inl e \<Rightarrow> Inl e
         | Inr k \<Rightarrow> Inr (t @ '' matched 32 bit community.'', success code,
                          d_address dev, d_type dev, k))
      else if match_large t then
        (case render format (dual c) ''bgp_community'' [(''target'', t)] of
           Inl e \<Rightarrow> Inl e
         | Inr k \<Rightarrow> Inr (t @ '' matched large community.'', success code,
                          d_address dev, d_type dev, k))
      else Inr (t @ '' is an invalid BGP Community Format.'', danger code,
                d_name dev, ''bgp_community'', t))"
  by (simp add: ssh_def Let_def command_init_def ssh_danger_def split: sum.split)

lemma ssh_aspath:
  "commands (d_type dev) = Some c \<Longrightarrow>
   fst (ssh IPNetwork format commands ''bgp_aspath'' t dev lg) =
     (case render format (dual c) ''bgp_aspath'' [(''target'', t)] of
        Inl e \<Rightarrow> Inl e
      | Inr k \<Rightarrow> Inr (t @ '' matched AS_PATH regex.'', success code,
                       d_address dev, d_type dev, k))"
  by (simp add: ssh_def Let_def command_init_def match_any_always split: sum.split)

lemma ssh_route:
  "commands (d_type dev) = Some c \<Longrightarrow>
   fst (ssh IPNetwork format commands ''bgp_route'' t dev lg) =
     (case IPNetwork t of
        None \<Rightarrow> Inr (t @ '' is an invalid IP Address.'', danger code, d_name dev, ''bgp_route'', t)
      | Some IPv4 \<Rightarrow>
          (case render format (ipv4 c) ''bgp_route'' [(''target'', t)] of
             Inl e \<Rightarrow> Inr (t @ '' is an invalid IP Address.'', danger code,
                            d_name dev, ''bgp_route'', t)
           | Inr k \<Rightarrow> Inr (t @ '' is a valid IPv4 Adddress.'', success code,
                            d_address dev, d_type dev, k))
      | Some IPv6 \<Rightarrow>
          (case render format (ipv6 c) ''bgp_route'' [(''target'', t)] of
             Inl e \<Rightarrow> Inr (t @ '' is an invalid IP Address.'', danger code,
                            d_name dev, ''bgp_route'', t)
           | Inr k \<Rightarrow> Inr (t @ '' is a valid IPv6 Adddress.'', success code,
                            d_address dev, d_type dev, k)))"
  by (simp add: ssh_def Let_def command_init_def ssh_danger_def
           split: sum.split option.split ip_version.split)

lemma ssh_ping_traceroute:
  "commands (d_type dev) = Some c \<Longrightarrow> cmd = ''ping'' \<or> cmd = ''traceroute'' \<Longrightarrow>
   fst (ssh IPNetwork format commands cmd t dev lg) =
     (case IPNetwork t of
        None \<Rightarrow> Inr (t @ '' is an invalid IP Address.'', danger code, d_name dev, cmd, t)
      | Some IPv4 \<Rightarrow>
          (case render format (ipv4 c) cmd
                  [(''target'', t), (''src_addr_ipv4'', d_src_addr_ipv4 dev)] of
             Inl e \<Rightarrow> Inr (t @ '' is an invalid IP Address.'', danger code, d_name dev, cmd, t)
           | Inr k \<Rightarrow> Inr (t @ '' is a valid IPv4 Adddress.'', success code,
                            d_address dev, d_type dev, k))
      | Some IPv6 \<Rightarrow>
          (case render format (ipv6 c) cmd
                  [(''target'', t), (''src_addr_ipv6'', d_src_addr_ipv6 dev)] of
             Inl e \<Rightarrow> Inr (t @ '' is an invalid IP Address.'', danger code, d_name dev, cmd, t)
           | Inr k \<Rightarrow> Inr (t @ '' is a valid IPv6 Adddress.'', success code,
                            d_address dev, d_type dev, k)))"
  by (erule disjE; simp add: ssh_def Let_def command_init_def ssh_danger_def
           split: sum.split option.split ip_version.split)

lemma ssh_other:
  "commands (d_type dev) = Some c \<Longrightarrow>
   cmd \<noteq> ''bgp_community'' \<Longrightarrow> cmd \<noteq> ''bgp_aspath'' \<Longrightarrow> cmd \<noteq> ''bgp_route'' \<Longrightarrow>
   cmd \<noteq> ''ping'' \<Longrightarrow> cmd \<noteq> ''traceroute'' \<Longrightarrow>
   fst (ssh IPNetwork format commands cmd t dev lg) =
     Inr (''Command '' @ cmd @ '' not found.'', danger code, d_name dev, cmd, t)"
  by (simp add: ssh_def Let_def command_init_def ssh_danger_def)

section \<open>Address-type queries with a target that does not parse\<close>

lemma frr_invalid_address:
  assumes "IPNetwork t = None" and "cmd \<in> {''bgp_route'', ''ping'', ''traceroute''}"
  shows "fst (frr IPNetwork cmd t dev lg) = Inl UnboundLocalError"
  using assms by (auto simp: frr_route frr_ping_traceroute)

lemma ssh_invalid_address:
  assumes "commands (d_type dev) = Some c" and "IPNetwork t = None"
    and "cmd \<in> {''bgp_route'', ''ping'', ''traceroute''}"
  shows "fst (ssh IPNetwork format commands cmd t dev lg) =
           Inr (t @ '' is an invalid IP Address.'', danger code, d_name dev, cmd, t)"
  using assms by (auto simp: ssh_route ssh_ping_traceroute)

text \<open>
  Claim C1 says that an address-type query (\<^verbatim>\<open>bgp_route\<close>, \<^verbatim>\<open>ping\<close>, \<^verbatim>\<open>traceroute\<close>) never
  raises in either builder: a target that does not parse gives the danger result
  \<^verbatim>\<open><target> is an invalid IP Address.\<close> In \<^verbatim>\<open>frr\<close> the handler formats its log line from
  \<^verbatim>\<open>query\<close>, which no statement has bound when the parser raised, so the call ends in
  \<^verbatim>\<open>UnboundLocalError\<close> instead of returning: for the target \<^verbatim>\<open>not-an-ip\<close>, which the parser
  rejects, all three query types raise.
\<close>

theorem C1_frr_invalid_address_raises:
  "example_IPNetwork ''not-an-ip'' = None \<and>
   fst (frr example_IPNetwork ''bgp_route'' ''not-an-ip'' example_device []) = Inl UnboundLocalError \<and>
   fst (frr example_IPNetwork ''ping'' ''not-an-ip'' example_device []) = Inl UnboundLocalError \<and>
   fst (frr example_IPNetwork ''traceroute'' ''not-an-ip'' example_device []) = Inl UnboundLocalError"
  by (simp add: frr_route frr_ping_traceroute example_IPNetwork_def)

section \<open>A vendor type outside the template store\<close>

lemma ssh_unsupported_log:
  "commands (d_type dev) = None \<Longrightarrow>
   snd (ssh IPNetwork format commands cmd t dev lg) =
     lg @ [(Info, ''Constructing '' @ cmd @ '' command for '' @ d_name dev @ '' to '' @ t @ ''...''),
           (Error, d_type dev @ '' is an unsupported network operating system., 415, ''
                   @ d_name dev @ '', '' @ cmd @ '', '' @ t)]"
  by (simp add: ssh_def Let_def command_init_def logger_info_def logger_error_def
        code_def str_int_def str_nat.simps digit_char_def)

text \<open>
  Claim C2 says that for a device whose vendor type has no entry in the template store the
  direct command builder returns the danger result
  \<^verbatim>\<open><vendor_type> is an unsupported network operating system.\<close> The code builds that tuple
  inside \<^verbatim>\<open>command.__init__\<close> and returns it from there, which Python turns into a
  \<^verbatim>\<open>TypeError\<close> at \<^verbatim>\<open>c = command(d_type)\<close>: the message is logged and the call raises. Here
  the device has the vendor type \<^verbatim>\<open>unknown_os\<close>, absent from the store.
\<close>

theorem C2_ssh_unsupported_vendor_raises:
  "example_commands ''unknown_os'' = None \<and>
   ssh example_IPNetwork example_format example_commands ''bgp_route'' ''192.0.2.1''
       (example_device\<lparr>d_type := ''unknown_os''\<rparr>) [] =
     (Inl TypeError,
      [(Info, ''Constructing bgp_route command for r1 to 192.0.2.1...''),
       (Error, ''unknown_os is an unsupported network operating system., 415, r1, bgp_route, 192.0.2.1'')])"
  by (simp add: ssh_def Let_def command_init_def logger_info_def logger_error_def
        code_def str_int_def str_nat.simps digit_char_def example_commands_def example_device_def)

section \<open>A template missing from a known vendor's group\<close>

lemma ssh_missing_template_dual:
  assumes "commands (d_type dev) = Some c" and "dual c ''bgp_aspath'' = None"
  shows "fst (ssh IPNetwork format commands ''bgp_aspath'' t dev lg) = Inl KeyError"
  using assms by (simp add: ssh_aspath render_def subscript_def)

lemma ssh_missing_template_address:
  assumes "commands (d_type dev) = Some c" and "cmd \<in> {''bgp_route'', ''ping'', ''traceroute''}"
    and "ipv4 c cmd = None" and "ipv6 c cmd = None"
  shows "fst (ssh IPNetwork format commands cmd t dev lg) =
           Inr (t @ '' is an invalid IP Address.'', danger code, d_name dev, cmd, t)"
  using assms
  by (auto simp: ssh_route ssh_ping_traceroute render_def subscript_def
           split: option.split ip_version.split)

text \<open>
  Claim C3 says that a template missing for a known vendor type and a valid query
  propagates as a fatal construction error and is never turned into the
  \<^verbatim>\<open>invalid IP Address\<close> result. For \<^verbatim>\<open>bgp_route\<close>, \<^verbatim>\<open>ping\<close> and \<^verbatim>\<open>traceroute\<close> the
  template lookup sits inside the \<^verbatim>\<open>try\<close> whose bare \<^verbatim>\<open>except\<close> is meant for the address
  parser, so the \<^verbatim>\<open>KeyError\<close> of the lookup is caught there: with the vendor known, the
  target \<^verbatim>\<open>192.0.2.1\<close> valid and no \<^verbatim>\<open>bgp_route\<close> template in the \<^verbatim>\<open>ipv4\<close> group, the
  builder reports the valid address as invalid.
\<close>

theorem C3_ssh_missing_template_reported_as_invalid_address:
  "example_IPNetwork ''192.0.2.1'' = Some IPv4 \<and>
   map_option (\<lambda>c. ipv4 c ''bgp_route'') (example_commands_no_route (d_type example_device)) = Some None \<and>
   fst (ssh example_IPNetwork example_format example_commands_no_route ''bgp_route'' ''192.0.2.1''
          example_device []) =
     Inr (''192.0.2.1 is an invalid IP Address.'', 415, ''r1'', ''bgp_route'', ''192.0.2.1'')"
  by (simp add: ssh_route [where c = example_groups_no_route]
        render_def subscript_def example_IPNetwork_def example_commands_no_route_def
        example_groups_no_route_def example_device_def code_def)

section \<open>A query type outside the five known ones\<close>

lemma frr_unknown_command:
  assumes "cmd \<notin> {''bgp_community'', ''bgp_aspath'', ''bgp_route'', ''ping'', ''traceroute''}"
  shows "fst (frr IPNetwork cmd t dev lg) = Inl UnboundLocalError"
  using assms by (simp add: frr_other)

lemma ssh_unknown_command:
  assumes "commands (d_type dev) = Some c"
    and "cmd \<notin> {''bgp_community'', ''bgp_aspath'', ''bgp_route'', ''ping'', ''traceroute''}"
  shows "fst (ssh IPNetwork format commands cmd t dev lg) =
           Inr (''Command '' @ cmd @ '' not found.'', danger code, d_name dev, cmd, t)"
  using assms by (simp add: ssh_other)

text \<open>
  Claim C7 says that for a query type outside the five known ones both builders return the
  danger result \<^verbatim>\<open>Command <query_type> not found.\<close>, for every target. The last branch of
  \<^verbatim>\<open>frr\<close> formats its log line from \<^verbatim>\<open>query\<close>, which is bound in no earlier branch taken, so
  \<^verbatim>\<open>frr\<close> raises \<^verbatim>\<open>UnboundLocalError\<close> and returns nothing: here for the query type
  \<^verbatim>\<open>bgp_neighbors\<close> and the empty target, where \<^verbatim>\<open>ssh\<close> returns the message.
\<close>

theorem C7_frr_unknown_command_raises:
  "fst (frr example_IPNetwork ''bgp_neighbors'' '''' example_device []) = Inl UnboundLocalError \<and>
   fst (ssh example_IPNetwork example_format example_commands ''bgp_neighbors'' '''' example_device []) =
     Inr (''Command bgp_neighbors not found.'', 415, ''r1'', ''bgp_neighbors'', '''')"
  by (simp add: frr_other ssh_other [where c = example_groups]
        example_commands_def example_device_def code_def)

section \<open>Targets that parse: the family tag and the source address\<close>

lemma ssh_valid_address_route:
  assumes "commands (d_type dev) = Some c" and "IPNetwork t = Some IPv4"
    and "render format (ipv4 c) ''bgp_route'' [(''target'', t)] = Inr k"
  shows "fst (ssh IPNetwork format commands ''bgp_route'' t dev lg) =
           Inr (t @ '' is a valid IPv4 Adddress.'', success code, d_address dev, d_type dev, k)"
  using assms by (simp add: ssh_route)

text \<open>
  Claim C8: for a target that parses as an IPv4 or IPv6 address or prefix, \<^verbatim>\<open>bgp_route\<close> in
  the API builder returns success, and the query object carries the family tag of the
  target's version; for \<^verbatim>\<open>ping\<close> and \<^verbatim>\<open>traceroute\<close> the query object carries the family
  tag and, as \<^verbatim>\<open>source\<close>, the device's source address of that family.
\<close>

theorem C8_family_tag_and_source:
  "(IPNetwork t = Some IPv4 \<longrightarrow>
      fst (frr IPNetwork ''bgp_route'' t dev lg) =
        Inr (t @ '' is a valid IPv4 Adddress.'', success code, d_address dev,
             json_dumps [(''cmd'', ''bgp_route''), (''afi'', ''ipv4''), (''target'', t)])) \<and>
   (IPNetwork t = Some IPv6 \<longrightarrow>
      fst (frr IPNetwork ''bgp_route'' t dev lg) =
        Inr (t @ '' is a valid IPv6 Adddress.'', success code, d_address dev,
             json_dumps [(''cmd'', ''bgp_route''), (''afi'', ''ipv6''), (''target'', t)])) \<and>
   (cmd \<in> {''ping'', ''traceroute''} \<longrightarrow> IPNetwork t = Some IPv4 \<longrightarrow>
      fst (frr IPNetwork cmd t dev lg) =
        Inr (t @ '' is a valid IPv4 Adddress.'', success code, d_address dev,
             json_dumps [(''cmd'', cmd), (''afi'', ''ipv4''),
                         (''source'', d_src_addr_ipv4 dev), (''target'', t)])) \<and>
   (cmd \<in> {''ping'', ''traceroute''} \<longrightarrow> IPNetwork t = Some IPv6 \<longrightarrow>
      fst (frr IPNetwork cmd t dev lg) =
        Inr (t @ '' is a valid IPv6 Adddress.'', success code, d_address dev,
             json_dumps [(''cmd'', cmd), (''afi'', ''ipv6''),
                         (''source'', d_src_addr_ipv6 dev), (''target'', t)]))"
  by (auto simp: frr_route frr_ping_traceroute)

theorem C8_family_tag_and_source_witness:
  "example_IPNetwork ''2001:db8::1'' = Some IPv6 \<and>
   ''traceroute'' \<in> {''ping'', ''traceroute''} \<and>
   d_src_addr_ipv6 example_device = ''2001:db8::ff'' \<and>
   fst (frr example_IPNetwork ''traceroute'' ''2001:db8::1'' example_device []) =
     Inr (''2001:db8::1 is a valid IPv6 Adddress.'', 200, ''10.0.0.1'',
          json_dumps [(''cmd'', ''traceroute''), (''afi'', ''ipv6''),
                      (''source'', ''2001:db8::ff''), (''target'', ''2001:db8::1'')]) \<and>
   fst (frr example_IPNetwork ''bgp_route'' ''2001:db8::1'' example_device []) =
     Inr (''2001:db8::1 is a valid IPv6 Adddress.'', 200, ''10.0.0.1'',
          json_dumps [(''cmd'', ''bgp_route''), (''afi'', ''ipv6''), (''target'', ''2001:db8::1'')])"
  using C8_family_tag_and_source [of example_IPNetwork "''2001:db8::1''" example_device "[]"
          "''traceroute''"]
  by (simp add: example_IPNetwork_def example_device_def code_def)

section \<open>The log\<close>

text \<open>
  Neither builder reads the log: the result is the same from any log, and a call only
  appends lines to it.
\<close>

lemma frr_log_independent:
  "fst (frr IPNetwork cmd t dev lg) = fst (frr IPNetwork cmd t dev lg')"
proof (cases cmd rule: cmd_cases)
  case community then show ?thesis by (simp add: frr_community)
next
  case aspath then show ?thesis by (simp add: frr_aspath)
next
  case route then show ?thesis by (simp add: frr_route)
next
  case ping_traceroute then show ?thesis by (simp add: frr_ping_traceroute)
next
  case other then show ?thesis by (simp add: frr_other)
qed

lemma ssh_log_independent:
  "fst (ssh IPNetwork format commands cmd t dev lg) =
   fst (ssh IPNetwork format commands cmd t dev lg')"
proof (cases "commands (d_type dev)")
  case None then show ?thesis by (simp add: ssh_unsupported)
next
  case (Some c)
  show ?thesis
  proof (cases cmd rule: cmd_cases)
    case community then show ?thesis by (simp add: ssh_community [where commands = commands and dev = dev, OF Some])
  next
    case aspath then show ?thesis by (simp add: ssh_aspath [where commands = commands and dev = dev, OF Some])
  next
    case route then show ?thesis by (simp add: ssh_route [where commands = commands and dev = dev, OF Some])
  next
    case ping_traceroute then show ?thesis by (simp add: ssh_ping_traceroute [where commands = commands and dev = dev, OF Some])
  next
    case other then show ?thesis by (simp add: ssh_other [where commands = commands and dev = dev, OF Some])
  qed
qed

lemma frr_log_appended: "\<exists>lines. snd (frr IPNetwork cmd t dev lg) = lg @ lines"
proof (cases cmd rule: cmd_cases)
  case community then show ?thesis
    by (simp add: frr_def Let_def logger_info_def logger_error_def)
next
  case aspath then show ?thesis
    by (simp add: frr_def Let_def logger_info_def match_any_always)
next
  case route then show ?thesis
    by (simp add: frr_def Let_def logger_info_def read_local_def
          split: option.split ip_version.split)
next
  case ping_traceroute then show ?thesis
    by (erule_tac disjE; simp add: frr_def Let_def logger_info_def read_local_def
          split: option.split ip_version.split)
next
  case other then show ?thesis
    by (simp add: frr_def Let_def logger_info_def read_local_def)
qed

lemma ssh_log_appended:
  "\<exists>lines. snd (ssh IPNetwork format commands cmd t dev lg) = lg @ lines"
proof (cases "commands (d_type dev)")
  case None then show ?thesis
    by (simp add: ssh_def Let_def command_init_def logger_info_def logger_error_def)
next
  case (Some c)
  show ?thesis
  proof (cases cmd rule: cmd_cases)
    case community with Some show ?thesis
      by (simp add: ssh_def Let_def command_init_def ssh_danger_def logger_info_def
            logger_error_def split: sum.split)
  next
    case aspath with Some show ?thesis
      by (simp add: ssh_def Let_def command_init_def logger_info_def match_any_always
            split: sum.split)
  next
    case route with Some show ?thesis
      by (simp add: ssh_def Let_def command_init_def ssh_danger_def logger_info_def
            logger_error_def split: sum.split option.split ip_version.split)
  next
    case ping_traceroute with Some show ?thesis
      by (erule_tac disjE; simp add: ssh_def Let_def command_init_def ssh_danger_def
            logger_info_def logger_error_def split: sum.split option.split ip_version.split)
  next
    case other with Some show ?thesis
      by (simp add: ssh_def Let_def command_init_def ssh_danger_def logger_info_def
            logger_error_def)
  qed
qed

section \<open>The status codes returned\<close>

lemma frr_status:
  "fst (frr IPNetwork cmd t dev lg) = Inr (m, st, a, q) \<Longrightarrow>
   st = success code \<or> st = danger code"
proof (cases cmd rule: cmd_cases)
  case community
  then show "fst (frr IPNetwork cmd t dev lg) = Inr (m, st, a, q) \<Longrightarrow> ?thesis"
    by (simp add: frr_community Let_def split: if_splits)
next
  case aspath
  then show "fst (frr IPNetwork cmd t dev lg) = Inr (m, st, a, q) \<Longrightarrow> ?thesis"
    by (simp add: frr_aspath)
next
  case route
  then show "fst (frr IPNetwork cmd t dev lg) = Inr (m, st, a, q) \<Longrightarrow> ?thesis"
    by (simp add: frr_route split: option.splits ip_version.splits)
next
  case ping_traceroute
  then show "fst (frr IPNetwork cmd t dev lg) = Inr (m, st, a, q) \<Longrightarrow> ?thesis"
    by (simp add: frr_ping_traceroute split: option.splits ip_version.splits)
next
  case other
  then show "fst (frr IPNetwork cmd t dev lg) = Inr (m, st, a, q) \<Longrightarrow> ?thesis"
    by (simp add: frr_other)
qed

lemma renderedI:
  "commands (d_type dev) = Some c \<Longrightarrow> grp \<in> {dual c, ipv4 c, ipv6 c} \<Longrightarrow>
   render format grp cmd kwargs = Inr k \<Longrightarrow> rendered format commands dev cmd k"
  unfolding rendered_def by blast

lemma ssh_shape:
  assumes "fst (ssh IPNetwork format commands cmd t dev lg) = Inr (m, st, a, v, k)"
  shows "(st = success code \<and> a = d_address dev \<and> v = d_type dev \<and>
            rendered format commands dev cmd k) \<or>
         (st = danger code \<and> a = d_name dev \<and> v = cmd \<and> k = t)"
proof (cases "commands (d_type dev)")
  case None with assms show ?thesis by (simp add: ssh_unsupported)
next
  case (Some c)
  have R: "\<And>grp kwargs. grp \<in> {dual c, ipv4 c, ipv6 c} \<Longrightarrow>
             render format grp cmd kwargs = Inr k \<Longrightarrow> rendered format commands dev cmd k"
    using Some by (rule renderedI [where commands = commands and dev = dev])
  show ?thesis
  proof (cases cmd rule: cmd_cases)
    case community with assms R show ?thesis
      by (auto simp: ssh_community [where commands = commands and dev = dev, OF Some] split: if_splits sum.splits)
  next
    case aspath with assms R show ?thesis
      by (auto simp: ssh_aspath [where commands = commands and dev = dev, OF Some] split: sum.splits)
  next
    case route with assms R show ?thesis
      by (auto simp: ssh_route [where commands = commands and dev = dev, OF Some] split: sum.splits option.splits ip_version.splits)
  next
    case ping_traceroute with assms R show ?thesis
      by (auto simp: ssh_ping_traceroute [where commands = commands and dev = dev, OF Some]
               split: sum.splits option.splits ip_version.splits)
  next
    case other with assms show ?thesis by (simp add: ssh_other [where commands = commands and dev = dev, OF Some])
  qed
qed

text \<open>
  Claim C10: the status code of every tuple either builder returns is the success constant
  200 or the danger constant 415, never the warning constant 405.
\<close>

theorem C10_status_success_or_danger:
  "(fst (frr IPNetwork cmd t dev lg) = Inr (m, st, a, q) \<longrightarrow>
      (st = success code \<or> st = danger code) \<and> st \<noteq> warning code) \<and>
   (fst (ssh IPNetwork format commands cmd' t' dev' lg') = Inr (m', st', a', v', k') \<longrightarrow>
      (st' = success code \<or> st' = danger code) \<and> st' \<noteq> warning code) \<and>
   success code = 200 \<and> warning code = 405 \<and> danger code = 415"
  using frr_status [of IPNetwork cmd t dev lg m st a q]
    ssh_shape [of IPNetwork format commands cmd' t' dev' lg' m' st' a' v' k']
  by (auto simp: code_def)

theorem C10_status_success_or_danger_witness:
  "fst (frr example_IPNetwork ''bgp_community'' ''abc'' example_device []) =
     Inr (''abc is an invalid BGP Community Format.'', 415, ''10.0.0.1'',
          json_dumps [(''cmd'', ''bgp_community''), (''afi'', ''dual''), (''target'', ''abc'')]) \<and>
   fst (ssh example_IPNetwork example_format example_commands ''bgp_route'' ''192.0.2.0/24''
          example_device []) =
     Inr (''192.0.2.0/24 is a valid IPv4 Adddress.'', 200, ''10.0.0.1'', ''cisco_ios'',
          ''show bgp ipv4 unicast 192.0.2.0/24'') \<and>
   (415 = success code \<or> 415 = danger code) \<and> 415 \<noteq> warning code \<and>
   (200 = success code \<or> 200 = danger code) \<and> 200 \<noteq> warning code"
proof -
  have f: "fst (frr example_IPNetwork ''bgp_community'' ''abc'' example_device []) =
     Inr (''abc is an invalid BGP Community Format.'', 415, ''10.0.0.1'',
          json_dumps [(''cmd'', ''bgp_community''), (''afi'', ''dual''), (''target'', ''abc'')])"
    by (simp add: frr_community match_new_format_def match_32bit_def match_large_def
          rx_digits_def rx_colon_def rx_end_def is_digit_def example_device_def code_def)
  have s: "fst (ssh example_IPNetwork example_format example_commands ''bgp_route''
                  ''192.0.2.0/24'' example_device []) =
     Inr (''192.0.2.0/24 is a valid IPv4 Adddress.'', 200, ''10.0.0.1'', ''cisco_ios'',
          ''show bgp ipv4 unicast 192.0.2.0/24'')"
    by (simp add: ssh_route [where c = example_groups]
          render_def subscript_def example_format_def example_IPNetwork_def
          example_commands_def example_groups_def example_device_def code_def)
  from f s
    C10_status_success_or_danger [where IPNetwork = example_IPNetwork
      and cmd = "''bgp_community''" and t = "''abc''" and dev = example_device and lg = "[]"
      and st = 415 and format = example_format and commands = example_commands
      and cmd' = "''bgp_route''" and t' = "''192.0.2.0/24''" and dev' = example_device
      and lg' = "[]" and st' = 200]
  show ?thesis by simp
qed

section \<open>The layout of the returned tuples\<close>

lemma frr_third:
  "fst (frr IPNetwork cmd t dev lg) = Inr (m, st, a, q) \<Longrightarrow> a = d_address dev"
proof (cases cmd rule: cmd_cases)
  case community
  then show "fst (frr IPNetwork cmd t dev lg) = Inr (m, st, a, q) \<Longrightarrow> ?thesis"
    by (simp add: frr_community Let_def split: if_splits)
next
  case aspath
  then show "fst (frr IPNetwork cmd t dev lg) = Inr (m, st, a, q) \<Longrightarrow> ?thesis"
    by (simp add: frr_aspath)
next
  case route
  then show "fst (frr IPNetwork cmd t dev lg) = Inr (m, st, a, q) \<Longrightarrow> ?thesis"
    by (simp add: frr_route split: option.splits ip_version.splits)
next
  case ping_traceroute
  then show "fst (frr IPNetwork cmd t dev lg) = Inr (m, st, a, q) \<Longrightarrow> ?thesis"
    by (simp add: frr_ping_traceroute split: option.splits ip_version.splits)
next
  case other
  then show "fst (frr IPNetwork cmd t dev lg) = Inr (m, st, a, q) \<Longrightarrow> ?thesis"
    by (simp add: frr_other)
qed

lemma example_ssh_route_valid:
  "fst (ssh example_IPNetwork example_format example_commands ''bgp_route'' ''192.0.2.0/24''
          example_device []) =
     Inr (''192.0.2.0/24 is a valid IPv4 Adddress.'', 200, ''10.0.0.1'', ''cisco_ios'',
          ''show bgp ipv4 unicast 192.0.2.0/24'')"
  by (simp add: ssh_route [where c = example_groups]
        render_def subscript_def example_format_def example_IPNetwork_def
        example_commands_def example_groups_def example_device_def code_def)

lemma example_ssh_route_invalid:
  "fst (ssh example_IPNetwork example_format example_commands ''bgp_route'' ''not-an-ip''
          example_device []) =
     Inr (''not-an-ip is an invalid IP Address.'', 415, ''r1'', ''bgp_route'', ''not-an-ip'')"
  by (simp add: ssh_route [where c = example_groups]
        example_IPNetwork_def example_commands_def example_groups_def example_device_def code_def)

lemma example_frr_community_invalid:
  "fst (frr example_IPNetwork ''bgp_community'' ''abc'' example_device []) =
     Inr (''abc is an invalid BGP Community Format.'', 415, ''10.0.0.1'',
          json_dumps [(''cmd'', ''bgp_community''), (''afi'', ''dual''), (''target'', ''abc'')])"
  by (simp add: frr_community match_new_format_def match_32bit_def match_large_def
        rx_digits_def rx_colon_def rx_end_def is_digit_def example_device_def code_def)

text \<open>
  Claim C4 says that in every branch of both builders, the failure branches included, the
  third element of the tuple is the device's address, and in \<^verbatim>\<open>ssh\<close> the fourth is the
  vendor type and the fifth the rendered command. Every failure branch of \<^verbatim>\<open>ssh\<close> returns
  \<^verbatim>\<open>(msg, code.danger, d_name, cmd, ipprefix)\<close>: the device's name, the query type and the
  target. Here the device is named \<^verbatim>\<open>r1\<close>, its address is \<^verbatim>\<open>10.0.0.1\<close> and its vendor type
  \<^verbatim>\<open>cisco_ios\<close>.
\<close>

theorem C4_ssh_failure_tuple_counterexample:
  "fst (ssh example_IPNetwork example_format example_commands ''bgp_route'' ''not-an-ip''
          example_device []) =
     Inr (''not-an-ip is an invalid IP Address.'', 415, ''r1'', ''bgp_route'', ''not-an-ip'') \<and>
   d_address example_device = ''10.0.0.1'' \<and> ''r1'' \<noteq> d_address example_device \<and>
   d_type example_device = ''cisco_ios'' \<and> ''bgp_route'' \<noteq> d_type example_device"
  by (simp add: example_ssh_route_invalid) (simp add: example_device_def)

text \<open>
  Claim C4 as amended: every tuple \<^verbatim>\<open>frr\<close> returns has the device's address as its third
  element. Every tuple \<^verbatim>\<open>ssh\<close> returns is either a success tuple, whose third element is
  the device's address, whose fourth is the vendor type and whose fifth is a command
  rendered from a template of the vendor's groups, or a failure tuple, whose third element
  is the device's name, whose fourth is the query type and whose fifth is the target.
\<close>

theorem C4_tuple_layout:
  "(fst (frr IPNetwork cmd t dev lg) = Inr (m, st, a, q) \<longrightarrow> a = d_address dev) \<and>
   (fst (ssh IPNetwork format commands cmd' t' dev' lg') = Inr (m', st', a', v', k') \<longrightarrow>
      (st' = success code \<and> a' = d_address dev' \<and> v' = d_type dev' \<and>
         rendered format commands dev' cmd' k') \<or>
      (st' = danger code \<and> a' = d_name dev' \<and> v' = cmd' \<and> k' = t'))"
  using frr_third [of IPNetwork cmd t dev lg m st a q]
    ssh_shape [of IPNetwork format commands cmd' t' dev' lg' m' st' a' v' k']
  by blast

theorem C4_tuple_layout_witness:
  "fst (frr example_IPNetwork ''bgp_community'' ''abc'' example_device []) =
     Inr (''abc is an invalid BGP Community Format.'', 415, ''10.0.0.1'',
          json_dumps [(''cmd'', ''bgp_community''), (''afi'', ''dual''), (''target'', ''abc'')]) \<and>
   ''10.0.0.1'' = d_address example_device \<and>
   fst (ssh example_IPNetwork example_format example_commands ''bgp_route'' ''192.0.2.0/24''
          example_device []) =
     Inr (''192.0.2.0/24 is a valid IPv4 Adddress.'', 200, ''10.0.0.1'', ''cisco_ios'',
          ''show bgp ipv4 unicast 192.0.2.0/24'') \<and>
   ''cisco_ios'' = d_type example_device \<and>
   rendered example_format example_commands example_device ''bgp_route''
     ''show bgp ipv4 unicast 192.0.2.0/24'' \<and>
   fst (ssh example_IPNetwork example_format example_commands ''bgp_route'' ''not-an-ip''
          example_device []) =
     Inr (''not-an-ip is an invalid IP Address.'', 415, ''r1'', ''bgp_route'', ''not-an-ip'') \<and>
   ''r1'' = d_name example_device"
proof -
  note f = example_frr_community_invalid
  note s = example_ssh_route_valid
  note s' = example_ssh_route_invalid
  have c: "success code = 200" "danger code = 415" by (simp_all add: code_def)
  from f s C4_tuple_layout [where IPNetwork = example_IPNetwork
      and cmd = "''bgp_community''" and t = "''abc''" and dev = example_device and lg = "[]"
      and format = example_format and commands = example_commands
      and cmd' = "''bgp_route''" and t' = "''192.0.2.0/24''" and dev' = example_device
      and lg' = "[]"]
  have 1: "''10.0.0.1'' = d_address example_device \<and> ''cisco_ios'' = d_type example_device \<and>
     rendered example_format example_commands example_device ''bgp_route''
       ''show bgp ipv4 unicast 192.0.2.0/24''"
    by (simp add: c)
  from f s' C4_tuple_layout [where IPNetwork = example_IPNetwork
      and cmd = "''bgp_community''" and t = "''abc''" and dev = example_device and lg = "[]"
      and format = example_format and commands = example_commands
      and cmd' = "''bgp_route''" and t' = "''not-an-ip''" and dev' = example_device
      and lg' = "[]"]
  have 2: "''r1'' = d_name example_device"
    by (simp add: c)
  from f s s' 1 2 show ?thesis by simp
qed

section \<open>AS-path queries\<close>

text \<open>
  Claim C6 says that \<^verbatim>\<open>bgp_aspath\<close> accepts exactly the non-empty targets, the empty target
  being the one failure case. The test is \<^verbatim>\<open>re.match(".*", ipprefix)\<close>, which matches every
  string, the empty one too: both builders accept the empty target.
\<close>

theorem C6_empty_aspath_accepted_counterexample:
  "fst (frr example_IPNetwork ''bgp_aspath'' '''' example_device []) =
     Inr ('' matched AS_PATH regex.'', 200, ''10.0.0.1'',
          json_dumps [(''cmd'', ''bgp_aspath''), (''afi'', ''dual''), (''target'', '''')]) \<and>
   fst (ssh example_IPNetwork example_format example_commands ''bgp_aspath'' '''' example_device []) =
     Inr ('' matched AS_PATH regex.'', 200, ''10.0.0.1'', ''cisco_ios'', ''show bgp all regexp '')"
  by (simp add: frr_aspath ssh_aspath [where c = example_groups]
        render_def subscript_def example_format_def example_commands_def example_groups_def example_device_def
        code_def)

text \<open>
  Claim C6 as amended: \<^verbatim>\<open>bgp_aspath\<close> accepts every target string, the empty one included.
  \<^verbatim>\<open>frr\<close> returns a success result with family tag \<^verbatim>\<open>dual\<close> for every target; \<^verbatim>\<open>ssh\<close>
  returns a success result with the command rendered from the \<^verbatim>\<open>dual\<close> group for every
  target, when the vendor type is in the store and the template renders; and no tuple
  either builder returns for \<^verbatim>\<open>bgp_aspath\<close> is a failure.
\<close>

theorem C6_aspath_accepts_every_target:
  "fst (frr IPNetwork ''bgp_aspath'' t dev lg) =
     Inr (t @ '' matched AS_PATH regex.'', success code, d_address dev,
          json_dumps [(''cmd'', ''bgp_aspath''), (''afi'', ''dual''), (''target'', t)]) \<and>
   (commands (d_type dev') = Some c \<longrightarrow>
    render format (dual c) ''bgp_aspath'' [(''target'', t')] = Inr k \<longrightarrow>
      fst (ssh IPNetwork format commands ''bgp_aspath'' t' dev' lg') =
        Inr (t' @ '' matched AS_PATH regex.'', success code, d_address dev', d_type dev', k)) \<and>
   (fst (ssh IPNetwork format commands ''bgp_aspath'' t' dev' lg') = Inr (m, st, a, v, k') \<longrightarrow>
      st = success code)"
proof (intro conjI impI)
  show "fst (frr IPNetwork ''bgp_aspath'' t dev lg) =
     Inr (t @ '' matched AS_PATH regex.'', success code, d_address dev,
          json_dumps [(''cmd'', ''bgp_aspath''), (''afi'', ''dual''), (''target'', t)])"
    by (rule frr_aspath)
next
  assume "commands (d_type dev') = Some c"
    and "render format (dual c) ''bgp_aspath'' [(''target'', t')] = Inr k"
  then show "fst (ssh IPNetwork format commands ''bgp_aspath'' t' dev' lg') =
        Inr (t' @ '' matched AS_PATH regex.'', success code, d_address dev', d_type dev', k)"
    by (simp add: ssh_aspath)
next
  assume r: "fst (ssh IPNetwork format commands ''bgp_aspath'' t' dev' lg') = Inr (m, st, a, v, k')"
  show "st = success code"
  proof (cases "commands (d_type dev')")
    case None with r show ?thesis by (simp add: ssh_unsupported)
  next
    case (Some c') with r show ?thesis
      by (simp add: ssh_aspath [where commands = commands and dev = dev', OF Some]
            split: sum.splits)
  qed
qed

theorem C6_aspath_accepts_every_target_witness:
  "example_commands (d_type example_device) = Some example_groups \<and>
   render example_format (dual example_groups) ''bgp_aspath''
     [(''target'', '''')] = Inr ''show bgp all regexp '' \<and>
   fst (frr example_IPNetwork ''bgp_aspath'' '''' example_device []) =
     Inr ('' matched AS_PATH regex.'', 200, ''10.0.0.1'',
          json_dumps [(''cmd'', ''bgp_aspath''), (''afi'', ''dual''), (''target'', '''')]) \<and>
   fst (ssh example_IPNetwork example_format example_commands ''bgp_aspath'' '''' example_device []) =
     Inr ('' matched AS_PATH regex.'', 200, ''10.0.0.1'', ''cisco_ios'', ''show bgp all regexp '')"
proof -
  have v: "example_commands (d_type example_device) = Some example_groups"
    by (simp add: example_commands_def example_groups_def example_device_def)
  have r: "render example_format (dual example_groups) ''bgp_aspath''
     [(''target'', '''')] = Inr ''show bgp all regexp ''"
    by (simp add: render_def subscript_def example_format_def example_groups_def)
  from v r C6_aspath_accepts_every_target [where IPNetwork = example_IPNetwork and t = "''''"
      and dev = example_device and lg = "[]" and commands = example_commands
      and dev' = example_device and c = example_groups
      and format = example_format and t' = "''''" and k = "''show bgp all regexp ''"
      and lg' = "[]" and m = "'' matched AS_PATH regex.''" and st = 200 and a = "''10.0.0.1''"
      and v = "''cisco_ios''" and k' = "''show bgp all regexp ''"]
  show ?thesis by (simp add: example_device_def code_def)
qed

section \<open>Community queries\<close>

subsection \<open>What the three patterns match\<close>

lemma not_digit_colon: "\<not> is_digit CHR '':''"
  by (simp add: is_digit_def)

lemma not_digit_lf: "\<not> is_digit (CHR 0x0A)"
  by (simp add: is_digit_def)

lemma digits_no_colon: "list_all is_digit d \<Longrightarrow> CHR '':'' \<notin> set d"
  using not_digit_colon by (auto simp: list_all_iff)

lemma rx_digits_SomeD:
  assumes "rx_digits lo hi s = Some r"
  shows "\<exists>d. s = d @ r \<and> list_all is_digit d \<and> lo \<le> length d \<and> length d \<le> hi"
proof -
  from assms have r: "r = dropWhile is_digit s"
    and b: "lo \<le> length (takeWhile is_digit s)" "length (takeWhile is_digit s) \<le> hi"
    by (auto simp: rx_digits_def Let_def split: if_splits)
  have "s = takeWhile is_digit s @ r" using r by simp
  moreover have "list_all is_digit (takeWhile is_digit s)"
    by (auto simp: list_all_iff dest: set_takeWhileD)
  ultimately show ?thesis using b by blast
qed

lemma rx_digits_append:
  assumes "list_all is_digit d" and "r = [] \<or> \<not> is_digit (hd r)"
  shows "rx_digits lo hi (d @ r) = (if lo \<le> length d \<and> length d \<le> hi then Some r else None)"
proof -
  from assms(2) have t: "takeWhile is_digit r = []" and dr: "dropWhile is_digit r = r"
    by (cases r; auto)+
  from assms(1) have "takeWhile is_digit (d @ r) = d" "dropWhile is_digit (d @ r) = r"
    using t dr by (simp_all add: list_all_iff takeWhile_append2 dropWhile_append2)
  then show ?thesis by (simp add: rx_digits_def Let_def)
qed

lemma rx_colon_Some: "rx_colon s = Some r \<longleftrightarrow> s = CHR '':'' # r"
  by (auto simp: rx_colon_def split: list.splits)

lemma rx_end_Some: "rx_end s = Some r \<longleftrightarrow> r = s \<and> (s = [] \<or> s = [CHR 0x0A])"
  by (auto simp: rx_end_def)

lemma bind_neq_None: "Option.bind x f \<noteq> None \<longleftrightarrow> (\<exists>y. x = Some y \<and> f y \<noteq> None)"
  by (cases x) auto

lemma match_new_format_iff:
  "match_new_format t \<longleftrightarrow>
     (\<exists>a n e. t = a @ CHR '':'' # n @ e \<and> digit_group 0 5 a \<and> digit_group 1 5 n \<and>
        (e = [] \<or> e = [CHR 0x0A]))"
  (is "?L \<longleftrightarrow> ?R")
proof
  assume ?L
  then obtain r1 r2 r3 where 1: "rx_digits 0 5 t = Some r1" and 2: "rx_colon r1 = Some r2"
    and 3: "rx_digits 1 5 r2 = Some r3" and 4: "rx_end r3 \<noteq> None"
    unfolding match_new_format_def bind_neq_None by (auto simp: bind_eq_Some_conv)
  from rx_digits_SomeD [OF 1] obtain a where a: "t = a @ r1" "list_all is_digit a" "length a \<le> 5"
    by auto
  from rx_digits_SomeD [OF 3] obtain n where n: "r2 = n @ r3" "list_all is_digit n"
    "1 \<le> length n" "length n \<le> 5" by auto
  from 2 have "r1 = CHR '':'' # r2" by (simp add: rx_colon_Some)
  moreover from 4 have "r3 = [] \<or> r3 = [CHR 0x0A]" by (auto simp: rx_end_def split: if_splits)
  ultimately show ?R using a n by (auto simp: digit_group_def)
next
  assume ?R
  then obtain a n e where t: "t = a @ CHR '':'' # n @ e" and a: "list_all is_digit a" "length a \<le> 5"
    and n: "list_all is_digit n" "1 \<le> length n" "length n \<le> 5" and e: "e = [] \<or> e = [CHR 0x0A]"
    by (auto simp: digit_group_def)
  have 1: "rx_digits 0 5 t = Some (CHR '':'' # n @ e)"
    unfolding t using a by (subst rx_digits_append) (simp_all add: not_digit_colon)
  have 3: "rx_digits 1 5 (n @ e) = Some e"
    using n e by (subst rx_digits_append) (auto simp: not_digit_lf)
  have 2: "rx_colon (CHR '':'' # n @ e) = Some (n @ e)" by (simp add: rx_colon_def)
  have 4: "rx_end e = Some e" using e by (auto simp: rx_end_def)
  show ?L unfolding match_new_format_def
    by (simp only: 1 2 3 4 Option.bind.simps option.distinct not_False_eq_True)
qed

lemma match_32bit_iff:
  "match_32bit t \<longleftrightarrow> (\<exists>n e. t = n @ e \<and> digit_group 1 10 n \<and> (e = [] \<or> e = [CHR 0x0A]))"
  (is "?L \<longleftrightarrow> ?R")
proof
  assume ?L
  then obtain r where 1: "rx_digits 1 10 t = Some r" and 2: "rx_end r \<noteq> None"
    unfolding match_32bit_def bind_neq_None by auto
  from rx_digits_SomeD [OF 1] obtain n where "t = n @ r" "list_all is_digit n"
    "1 \<le> length n" "length n \<le> 10" by auto
  moreover from 2 have "r = [] \<or> r = [CHR 0x0A]" by (auto simp: rx_end_def split: if_splits)
  ultimately show ?R by (auto simp: digit_group_def)
next
  assume ?R
  then obtain n e where t: "t = n @ e" and n: "list_all is_digit n" "1 \<le> length n" "length n \<le> 10"
    and e: "e = [] \<or> e = [CHR 0x0A]"
    by (auto simp: digit_group_def)
  have "rx_digits 1 10 (n @ e) = Some e"
    using n e by (subst rx_digits_append) (auto simp: not_digit_lf)
  moreover have "rx_end e = Some e" using e by (auto simp: rx_end_def)
  ultimately show ?L unfolding match_32bit_def t
    by (simp only: Option.bind.simps option.distinct not_False_eq_True)
qed

lemma match_large_iff:
  "match_large t \<longleftrightarrow>
     (\<exists>a b c e. t = a @ CHR '':'' # b @ CHR '':'' # c @ e \<and> digit_group 1 10 a \<and>
        digit_group 1 10 b \<and> digit_group 1 10 c \<and> (e = [] \<or> e = [CHR 0x0A]))"
  (is "?L \<longleftrightarrow> ?R")
proof
  assume ?L
  then obtain r1 r2 r3 r4 r5 where 1: "rx_digits 1 10 t = Some r1" and 2: "rx_colon r1 = Some r2"
    and 3: "rx_digits 1 10 r2 = Some r3" and 4: "rx_colon r3 = Some r4"
    and 5: "rx_digits 1 10 r4 = Some r5" and 6: "rx_end r5 \<noteq> None"
    unfolding match_large_def bind_neq_None by (auto simp: bind_eq_Some_conv)
  from rx_digits_SomeD [OF 1] obtain a where a: "t = a @ r1" "digit_group 1 10 a"
    by (auto simp: digit_group_def)
  from rx_digits_SomeD [OF 3] obtain b where b: "r2 = b @ r3" "digit_group 1 10 b"
    by (auto simp: digit_group_def)
  from rx_digits_SomeD [OF 5] obtain c where c: "r4 = c @ r5" "digit_group 1 10 c"
    by (auto simp: digit_group_def)
  from 2 4 have "r1 = CHR '':'' # r2" "r3 = CHR '':'' # r4" by (simp_all add: rx_colon_Some)
  moreover from 6 have "r5 = [] \<or> r5 = [CHR 0x0A]" by (auto simp: rx_end_def split: if_splits)
  ultimately show ?R using a b c by auto
next
  assume ?R
  then obtain a b c e where t: "t = a @ CHR '':'' # b @ CHR '':'' # c @ e"
    and a: "list_all is_digit a" "1 \<le> length a" "length a \<le> 10"
    and b: "list_all is_digit b" "1 \<le> length b" "length b \<le> 10"
    and c: "list_all is_digit c" "1 \<le> length c" "length c \<le> 10"
    and e: "e = [] \<or> e = [CHR 0x0A]"
    by (auto simp: digit_group_def)
  have 1: "rx_digits 1 10 t = Some (CHR '':'' # b @ CHR '':'' # c @ e)"
    unfolding t using a by (subst rx_digits_append) (simp_all add: not_digit_colon)
  have 3: "rx_digits 1 10 (b @ CHR '':'' # c @ e) = Some (CHR '':'' # c @ e)"
    using b by (subst rx_digits_append) (simp_all add: not_digit_colon)
  have 5: "rx_digits 1 10 (c @ e) = Some e"
    using c e by (subst rx_digits_append) (auto simp: not_digit_lf)
  have 2: "rx_colon (CHR '':'' # b @ CHR '':'' # c @ e) = Some (b @ CHR '':'' # c @ e)"
    by (simp add: rx_colon_def)
  have 4: "rx_colon (CHR '':'' # c @ e) = Some (c @ e)" by (simp add: rx_colon_def)
  have 6: "rx_end e = Some e" using e by (auto simp: rx_end_def)
  show ?L unfolding match_large_def
    by (simp only: 1 2 3 4 5 6 Option.bind.simps option.distinct not_False_eq_True)
qed

subsection \<open>The patterns against the syntaxes of the specification\<close>

lemma split_colon_no_colon:
  "CHR '':'' \<notin> set d \<Longrightarrow> split_colon g (d @ r) = split_colon (g @ d) r"
  by (induction d arbitrary: g) auto

lemma split_colon_digits: "list_all is_digit d \<Longrightarrow> split_colon g d = [g @ d]"
  using split_colon_no_colon [of d g "[]"] by (simp add: digits_no_colon)

lemma split_colon_nonempty: "split_colon g s \<noteq> []"
  by (induction s arbitrary: g) auto

lemma split_colon_one: "split_colon g s = [x] \<Longrightarrow> x = g @ s"
proof (induction s arbitrary: g)
  case Nil
  then show ?case by simp
next
  case (Cons a s)
  show ?case
  proof (cases "a = CHR '':''")
    case True
    with Cons.prems show ?thesis by (simp add: split_colon_nonempty)
  next
    case False
    with Cons.prems have "split_colon (g @ [a]) s = [x]" by simp
    from Cons.IH [OF this] show ?thesis by simp
  qed
qed

lemma split_colon_two: "split_colon g s = [x, y] \<Longrightarrow> g @ s = x @ CHR '':'' # y"
proof (induction s arbitrary: g)
  case Nil
  then show ?case by simp
next
  case (Cons a s)
  show ?case
  proof (cases "a = CHR '':''")
    case True
    with Cons.prems have "x = g" "split_colon [] s = [y]" by simp_all
    with split_colon_one [of "[]" s y] True show ?thesis by simp
  next
    case False
    with Cons.prems have "split_colon (g @ [a]) s = [x, y]" by simp
    from Cons.IH [OF this] show ?thesis by simp
  qed
qed

lemma split_colon_three:
  "split_colon g s = [x, y, z] \<Longrightarrow> g @ s = x @ CHR '':'' # y @ CHR '':'' # z"
proof (induction s arbitrary: g)
  case Nil
  then show ?case by simp
next
  case (Cons a s)
  show ?case
  proof (cases "a = CHR '':''")
    case True
    with Cons.prems have "x = g" "split_colon [] s = [y, z]" by simp_all
    with split_colon_two [of "[]" s y z] True show ?thesis by simp
  next
    case False
    with Cons.prems have "split_colon (g @ [a]) s = [x, y, z]" by simp
    from Cons.IH [OF this] show ?thesis by simp
  qed
qed

lemma new_format_syntax_iff:
  "new_format_syntax s \<longleftrightarrow>
     (\<exists>a n. s = a @ CHR '':'' # n \<and> digit_group 0 5 a \<and> digit_group 1 5 n)"
  (is "?L \<longleftrightarrow> ?R")
proof
  assume ?L
  then obtain a n where "split_colon [] s = [a, n]" "digit_group 0 5 a" "digit_group 1 5 n"
    by (auto simp: new_format_syntax_def split: list.splits)
  then show ?R using split_colon_two [of "[]" s a n] by auto
next
  assume ?R
  then obtain a n where s: "s = a @ CHR '':'' # n" and d: "digit_group 0 5 a" "digit_group 1 5 n"
    by blast
  from d have "split_colon [] s = [a, n]"
    unfolding s by (simp add: digit_group_def split_colon_no_colon digits_no_colon
        split_colon_digits)
  with d show ?L by (simp add: new_format_syntax_def)
qed

lemma large_syntax_iff:
  "large_syntax s \<longleftrightarrow>
     (\<exists>a b c. s = a @ CHR '':'' # b @ CHR '':'' # c \<and> digit_group 1 10 a \<and>
        digit_group 1 10 b \<and> digit_group 1 10 c)"
  (is "?L \<longleftrightarrow> ?R")
proof
  assume ?L
  then obtain a b c where "split_colon [] s = [a, b, c]" "digit_group 1 10 a"
    "digit_group 1 10 b" "digit_group 1 10 c"
    by (auto simp: large_syntax_def split: list.splits)
  then show ?R using split_colon_three [of "[]" s a b c] by auto
next
  assume ?R
  then obtain a b c where s: "s = a @ CHR '':'' # b @ CHR '':'' # c"
    and d: "digit_group 1 10 a" "digit_group 1 10 b" "digit_group 1 10 c"
    by blast
  from d have "split_colon [] s = [a, b, c]"
    unfolding s by (simp add: digit_group_def split_colon_no_colon digits_no_colon
        split_colon_digits)
  with d show ?L by (simp add: large_syntax_def)
qed

lemma chomp_cases: "t = chomp t \<or> t = chomp t @ [CHR 0x0A]"
  by (cases t rule: rev_cases) (auto simp: chomp_def)

lemma chomp_digits_end:
  assumes "list_all is_digit n" and "n \<noteq> []" and "e = [] \<or> e = [CHR 0x0A]"
  shows "chomp (p @ n @ e) = p @ n"
proof -
  from assms(1,2) have "is_digit (last n)" by (simp add: list_all_iff)
  then have "last n \<noteq> CHR 0x0A" using not_digit_lf by auto
  with assms(2,3) show ?thesis
    by (auto simp: chomp_def butlast_append simp flip: append_assoc)
qed

lemma match_new_format_chomp: "match_new_format t \<longleftrightarrow> new_format_syntax (chomp t)"
proof
  assume "match_new_format t"
  then obtain a n e where t: "t = a @ CHR '':'' # n @ e" and d: "digit_group 0 5 a"
    "digit_group 1 5 n" and e: "e = [] \<or> e = [CHR 0x0A]"
    unfolding match_new_format_iff by blast
  from d e have "chomp ((a @ [CHR '':'']) @ n @ e) = (a @ [CHR '':'']) @ n"
    by (intro chomp_digits_end) (auto simp: digit_group_def)
  then have "chomp t = a @ CHR '':'' # n" by (simp add: t)
  with d show "new_format_syntax (chomp t)" unfolding new_format_syntax_iff by blast
next
  assume "new_format_syntax (chomp t)"
  then obtain a n where c: "chomp t = a @ CHR '':'' # n" and d: "digit_group 0 5 a"
    "digit_group 1 5 n"
    unfolding new_format_syntax_iff by blast
  from chomp_cases [of t] c have "t = a @ CHR '':'' # n @ [] \<or> t = a @ CHR '':'' # n @ [CHR 0x0A]"
    by auto
  with d show "match_new_format t" unfolding match_new_format_iff by blast
qed

lemma match_32bit_chomp: "match_32bit t \<longleftrightarrow> plain_32bit_syntax (chomp t)"
proof
  assume "match_32bit t"
  then obtain n e where t: "t = n @ e" and d: "digit_group 1 10 n"
    and e: "e = [] \<or> e = [CHR 0x0A]"
    unfolding match_32bit_iff by blast
  from d e have "chomp ([] @ n @ e) = [] @ n"
    by (intro chomp_digits_end) (auto simp: digit_group_def)
  with d show "plain_32bit_syntax (chomp t)" by (simp add: t plain_32bit_syntax_def)
next
  assume "plain_32bit_syntax (chomp t)"
  then have d: "digit_group 1 10 (chomp t)" by (simp add: plain_32bit_syntax_def)
  from chomp_cases [of t] have "t = chomp t @ [] \<or> t = chomp t @ [CHR 0x0A]" by simp
  with d show "match_32bit t" unfolding match_32bit_iff by blast
qed

lemma match_large_chomp: "match_large t \<longleftrightarrow> large_syntax (chomp t)"
proof
  assume "match_large t"
  then obtain a b c e where t: "t = a @ CHR '':'' # b @ CHR '':'' # c @ e"
    and d: "digit_group 1 10 a" "digit_group 1 10 b" "digit_group 1 10 c"
    and e: "e = [] \<or> e = [CHR 0x0A]"
    unfolding match_large_iff by blast
  from d e have "chomp ((a @ CHR '':'' # b @ [CHR '':'']) @ c @ e) = (a @ CHR '':'' # b @ [CHR '':'']) @ c"
    by (intro chomp_digits_end) (auto simp: digit_group_def)
  then have "chomp t = a @ CHR '':'' # b @ CHR '':'' # c" by (simp add: t)
  with d show "large_syntax (chomp t)" unfolding large_syntax_iff by blast
next
  assume "large_syntax (chomp t)"
  then obtain a b c where c: "chomp t = a @ CHR '':'' # b @ CHR '':'' # c"
    and d: "digit_group 1 10 a" "digit_group 1 10 b" "digit_group 1 10 c"
    unfolding large_syntax_iff by blast
  from chomp_cases [of t] c
  have "t = a @ CHR '':'' # b @ CHR '':'' # c @ [] \<or> t = a @ CHR '':'' # b @ CHR '':'' # c @ [CHR 0x0A]"
    by auto
  with d show "match_large t" unfolding match_large_iff by blast
qed

text \<open>
  The three syntaxes exclude one another (they have one, no and two colons), so the order
  of the tests decides no target; the message names the pattern that matched.
\<close>

lemma syntaxes_exclusive:
  "\<not> (new_format_syntax s \<and> plain_32bit_syntax s)"
  "\<not> (new_format_syntax s \<and> large_syntax s)"
  "\<not> (plain_32bit_syntax s \<and> large_syntax s)"
proof -
  show "\<not> (new_format_syntax s \<and> plain_32bit_syntax s)"
    by (auto simp: new_format_syntax_iff plain_32bit_syntax_def digit_group_def not_digit_colon)
  show "\<not> (plain_32bit_syntax s \<and> large_syntax s)"
    by (auto simp: large_syntax_iff plain_32bit_syntax_def digit_group_def not_digit_colon)
  show "\<not> (new_format_syntax s \<and> large_syntax s)"
  proof
    assume "new_format_syntax s \<and> large_syntax s"
    then have "length (split_colon [] s) = 2" "length (split_colon [] s) = 3"
      by (auto simp: new_format_syntax_def large_syntax_def split: list.splits)
    then show False by simp
  qed
qed

subsection \<open>\<^verbatim>\<open>bgp_community\<close> in the two builders\<close>

lemma frr_community_accepted:
  assumes "community_syntax (chomp t)"
  shows "\<exists>m. fst (frr IPNetwork ''bgp_community'' t dev lg) =
           Inr (m, success code, d_address dev,
                json_dumps [(''cmd'', ''bgp_community''), (''afi'', ''dual''), (''target'', t)])"
  using assms
  by (auto simp: frr_community Let_def community_syntax_def match_new_format_chomp
        match_32bit_chomp match_large_chomp)

lemma frr_community_rejected:
  assumes "\<not> community_syntax (chomp t)"
  shows "fst (frr IPNetwork ''bgp_community'' t dev lg) =
           Inr (t @ '' is an invalid BGP Community Format.'', danger code, d_address dev,
                json_dumps [(''cmd'', ''bgp_community''), (''afi'', ''dual''), (''target'', t)])"
  using assms
  by (simp add: frr_community Let_def community_syntax_def match_new_format_chomp
        match_32bit_chomp match_large_chomp)

lemma ssh_community_rejected:
  assumes "commands (d_type dev) = Some c" and "\<not> community_syntax (chomp t)"
  shows "fst (ssh IPNetwork format commands ''bgp_community'' t dev lg) =
           Inr (t @ '' is an invalid BGP Community Format.'', danger code, d_name dev,
                ''bgp_community'', t)"
  using assms
  by (simp add: ssh_community community_syntax_def match_new_format_chomp
        match_32bit_chomp match_large_chomp)

lemma ssh_community_accepted:
  assumes "commands (d_type dev) = Some c" and "community_syntax (chomp t)"
    and "render format (dual c) ''bgp_community'' [(''target'', t)] = Inr k"
  shows "\<exists>m. fst (ssh IPNetwork format commands ''bgp_community'' t dev lg) =
           Inr (m, success code, d_address dev, d_type dev, k)"
  using assms
  by (auto simp: ssh_community community_syntax_def match_new_format_chomp
        match_32bit_chomp match_large_chomp)

lemma chomp_no_line_feed: "CHR 0x0A \<notin> set t \<Longrightarrow> chomp t = t"
  by (cases t rule: rev_cases) (auto simp: chomp_def)

text \<open>The examples of the specification.\<close>

lemma example_communities:
  "match_new_format ''65000:100''" "\<not> match_32bit ''65000:100''"
  "match_32bit ''4200000000''" "match_large ''1:2:3''"
  "\<not> match_new_format ''abc''" "\<not> match_32bit ''abc''" "\<not> match_large ''abc''"
  by (simp_all add: match_new_format_def match_32bit_def match_large_def
        rx_digits_def rx_colon_def rx_end_def is_digit_def)

lemma example_frr_community_new_format:
  "fst (frr example_IPNetwork ''bgp_community'' ''65000:100'' example_device []) =
     Inr (''65000:100 matched new-format community.'', 200, ''10.0.0.1'',
          json_dumps [(''cmd'', ''bgp_community''), (''afi'', ''dual''), (''target'', ''65000:100'')])"
  by (simp add: frr_community example_communities example_device_def code_def)

text \<open>
  Claim C5 says that \<^verbatim>\<open>bgp_community\<close> accepts a target if and only if it has one of the
  three community syntaxes, and that every other target gets the danger result
  \<^verbatim>\<open><target> is an invalid BGP Community Format.\<close> The patterns end in \<^verbatim>\<open>$\<close>, which in Python
  also matches just before a line feed that ends the string, so a community followed by a
  line feed is accepted: the target \<^verbatim>\<open>1:2\<close> plus a line feed is none of the three syntaxes,
  \<^verbatim>\<open>frr\<close> and \<^verbatim>\<open>ssh\<close> report it as a new-format community, and \<^verbatim>\<open>ssh\<close> renders it, line feed
  included, into the command.
\<close>

theorem C5_community_with_line_feed_accepted:
  "\<not> community_syntax (''1:2'' @ [CHR 0x0A]) \<and>
   fst (frr example_IPNetwork ''bgp_community'' (''1:2'' @ [CHR 0x0A]) example_device []) =
     Inr (''1:2'' @ [CHR 0x0A] @ '' matched new-format community.'', 200, ''10.0.0.1'',
          json_dumps [(''cmd'', ''bgp_community''), (''afi'', ''dual''),
                      (''target'', ''1:2'' @ [CHR 0x0A])]) \<and>
   fst (ssh example_IPNetwork example_format example_commands ''bgp_community''
          (''1:2'' @ [CHR 0x0A]) example_device []) =
     Inr (''1:2'' @ [CHR 0x0A] @ '' matched new-format community.'', 200, ''10.0.0.1'',
          ''cisco_ios'', ''show bgp all community 1:2'' @ [CHR 0x0A])"
proof -
  have m: "match_new_format (''1:2'' @ [CHR 0x0A])"
    by (simp add: match_new_format_def rx_digits_def rx_colon_def rx_end_def is_digit_def)
  have n: "\<not> community_syntax (''1:2'' @ [CHR 0x0A])"
    by (simp add: community_syntax_def new_format_syntax_def plain_32bit_syntax_def
          large_syntax_def digit_group_def is_digit_def)
  have r: "render example_format (dual example_groups) ''bgp_community''
             [(''target'', ''1:2'' @ [CHR 0x0A])] = Inr (''show bgp all community 1:2'' @ [CHR 0x0A])"
    by (simp add: render_def subscript_def example_format_def example_groups_def)
  have c: "example_commands (d_type example_device) = Some example_groups"
    by (simp add: example_commands_def example_device_def)
  have f: "fst (frr example_IPNetwork ''bgp_community'' (''1:2'' @ [CHR 0x0A]) example_device []) =
     Inr (''1:2'' @ [CHR 0x0A] @ '' matched new-format community.'', 200, ''10.0.0.1'',
          json_dumps [(''cmd'', ''bgp_community''), (''afi'', ''dual''),
                      (''target'', ''1:2'' @ [CHR 0x0A])])"
    unfolding frr_community Let_def using m by (simp add: example_device_def code_def)
  have s: "fst (ssh example_IPNetwork example_format example_commands ''bgp_community''
          (''1:2'' @ [CHR 0x0A]) example_device []) =
     Inr (''1:2'' @ [CHR 0x0A] @ '' matched new-format community.'', 200, ''10.0.0.1'',
          ''cisco_ios'', ''show bgp all community 1:2'' @ [CHR 0x0A])"
    unfolding ssh_community [where commands = example_commands and dev = example_device, OF c]
    using m r by (simp add: example_device_def code_def)
  from n f s show ?thesis by blast
qed

end
